theory Spec2Isabelle
  imports Main "HOL-Library.Sublist"
begin

section \<open>Text, environment and the built-ins used by \<open>config.py\<close>\<close>

text \<open>
  Python text is modelled as \<^typ>\<open>string\<close>: the list of the bytes of its UTF-8 form, so an
  ASCII character is one \<^typ>\<open>char\<close> and the rocket of the root message is four.
  The process environment is a partial map from names to values, and
  \<open>os.getenv(key, default)\<close> reads it.
\<close>

type_synonym environ = "string \<rightharpoonup> string"

definition getenv :: "environ \<Rightarrow> string \<Rightarrow> string \<Rightarrow> string" where
  "getenv env key dflt = (case env key of None \<Rightarrow> dflt | Some v \<Rightarrow> v)"

text \<open>
  \<open>str.lower()\<close>: the letters \<open>A\<close> to \<open>Z\<close> move to \<open>a\<close> to \<open>z\<close>. Bytes above
  127 are kept: Python also lowers letters outside ASCII, and the only such letter whose
  lower form is ASCII is the Kelvin sign (to \<open>k\<close>), so a comparison of the result with
  \<open>true\<close> is not affected.
\<close>

definition lower_char :: "char \<Rightarrow> char" where
  "lower_char c =
     (if (65::nat) \<le> of_char c \<and> of_char c \<le> (90::nat)
      then char_of (of_char c + (32::nat)) else c)"

definition lower :: "string \<Rightarrow> string" where
  "lower s = map lower_char s"

text \<open>
  \<open>s.split(sep)\<close> for a separator of one character: the scan cuts at each separator and
  appends what is left at the end, so the result is never empty and empty pieces stay.
\<close>

fun split_from :: "char \<Rightarrow> string \<Rightarrow> string \<Rightarrow> string list" where
  "split_from sep piece [] = [piece]"
| "split_from sep piece (c # cs) =
     (if c = sep then piece # split_from sep [] cs
      else split_from sep (piece @ [c]) cs)"

definition split :: "char \<Rightarrow> string \<Rightarrow> string list" where
  "split sep s = split_from sep [] s"

text \<open>\<open>sep.join(pieces)\<close>, the inverse the split is compared with.\<close>

fun join :: "char \<Rightarrow> string list \<Rightarrow> string" where
  "join sep [] = []"
| "join sep [p] = p"
| "join sep (p # q # ps) = p @ sep # join sep (q # ps)"

datatype error = ValueError | AssertionError | ImportError | OSError

text \<open>
  \<open>int(text)\<close> in base ten: white space around the number is dropped, one sign may lead,
  and the digits may be grouped by single underscores between two digits. Everything else
  raises \<open>ValueError\<close>. This is what Python does on ASCII text of moderate length.
  Python also reads the decimal digits and the white space of other scripts, and raises
  \<open>ValueError\<close> for a number with more digits than the interpreter's limit; the limit is
  a setting of the interpreter that is never below 640 digits. Outside the texts of
  \<open>int_modelled\<close> below, \<open>py_int\<close> says nothing about \<open>int\<close>.
\<close>

definition is_space :: "char \<Rightarrow> bool" where
  "is_space c = ((of_char c :: nat) = 32 \<or> ((9::nat) \<le> of_char c \<and> of_char c \<le> (13::nat)))"

definition is_digit :: "char \<Rightarrow> bool" where
  "is_digit c = ((48::nat) \<le> of_char c \<and> of_char c \<le> (57::nat))"

definition digit_value :: "char \<Rightarrow> int" where
  "digit_value c = int (of_char c) - 48"

definition strip :: "string \<Rightarrow> string" where
  "strip s = rev (dropWhile is_space (rev (dropWhile is_space s)))"

fun int_digits :: "int \<Rightarrow> bool \<Rightarrow> string \<Rightarrow> error + int" where
  "int_digits acc after_digit [] = (if after_digit then Inr acc else Inl ValueError)"
| "int_digits acc after_digit (c # cs) =
     (if is_digit c then int_digits (10 * acc + digit_value c) True cs
      else if c = CHR ''_'' \<and> after_digit then int_digits acc False cs
      else Inl ValueError)"

definition py_int :: "string \<Rightarrow> error + int" where
  "py_int s =
     (case strip s of
        [] \<Rightarrow> Inl ValueError
      | c # cs \<Rightarrow>
          if c = CHR ''+'' then int_digits 0 False cs
          else if c = CHR ''-'' then
            (case int_digits 0 False cs of Inl e \<Rightarrow> Inl e | Inr n \<Rightarrow> Inr (- n))
          else int_digits 0 False (c # cs))"

text \<open>
  The texts on which \<open>py_int\<close> is \<open>int\<close>: ASCII characters only, and at most 640 of
  them, so that the limit on the digits cannot apply.
\<close>

definition int_modelled :: "string \<Rightarrow> bool" where
  "int_modelled s = (length s \<le> 640 \<and> list_all (\<lambda>c. (of_char c :: nat) < 128) s)"

section \<open>\<open>config.py\<close>: the settings\<close>

text \<open>
  The attributes of class \<open>Settings\<close> are computed once, when the class body runs at the
  import of the module, in the order of the source. Only the parse of \<open>PORT\<close> can raise.
\<close>

record Settings =
  ENVIRONMENT :: string
  DEBUG :: bool
  LOG_LEVEL :: string
  API_PREFIX :: string
  API_VERSION :: string
  CORS_ORIGINS :: "string list"
  HOST :: string
  PORT :: int

definition Settings_class :: "environ \<Rightarrow> error + Settings" where
  "Settings_class env =
     (case py_int (getenv env ''PORT'' ''8080'') of
        Inl e \<Rightarrow> Inl e
      | Inr port \<Rightarrow> Inr
          \<lparr> ENVIRONMENT = getenv env ''ENVIRONMENT'' ''development'',
            DEBUG = (lower (getenv env ''DEBUG'' ''false'') = ''true''),
            LOG_LEVEL = getenv env ''LOG_LEVEL'' ''INFO'',
            API_PREFIX = getenv env ''API_PREFIX'' ''/api'',
            API_VERSION = getenv env ''API_VERSION'' ''1.0.0'',
            CORS_ORIGINS = split (CHR '','') (getenv env ''CORS_ORIGINS'' ''*''),
            HOST = getenv env ''HOST'' ''0.0.0.0'',
            PORT = port \<rparr>)"

definition is_production :: "Settings \<Rightarrow> bool" where
  "is_production self = (ENVIRONMENT self = ''production'')"

definition is_development :: "Settings \<Rightarrow> bool" where
  "is_development self = (ENVIRONMENT self = ''development'')"

text \<open>
  \<open>Settings()\<close> makes a new object that reads all its attributes from the class, and
  \<open>@lru_cache\<close> keeps the object of the first call. The process state holds the class
  attributes, the number of objects made so far (the identity of the next one) and the
  cache.
\<close>

record Settings_object =
  ident :: nat
  attrs :: Settings

record process =
  class_attrs :: Settings
  allocated :: nat
  lru_cache :: "Settings_object option"

definition Settings_new :: "process \<Rightarrow> Settings_object \<times> process" where
  "Settings_new p =
     (\<lparr> ident = allocated p, attrs = class_attrs p \<rparr>, p\<lparr> allocated := allocated p + 1 \<rparr>)"

definition get_settings :: "process \<Rightarrow> Settings_object \<times> process" where
  "get_settings p =
     (case lru_cache p of
        Some cached \<Rightarrow> (cached, p)
      | None \<Rightarrow> (case Settings_new p of (obj, p') \<Rightarrow> (obj, p'\<lparr> lru_cache := Some obj \<rparr>)))"

text \<open>The import of \<open>config.py\<close>: the class body runs, the cache starts empty.\<close>

definition import_config :: "environ \<Rightarrow> error + process" where
  "import_config env =
     (case Settings_class env of
        Inl e \<Rightarrow> Inl e
      | Inr a \<Rightarrow> Inr \<lparr> class_attrs = a, allocated = 0, lru_cache = None \<rparr>)"

text \<open>Calling \<open>get_settings\<close> \<open>n\<close> times in a row, collecting what each call returns.\<close>

fun get_settings_times :: "nat \<Rightarrow> process \<Rightarrow> Settings_object list \<times> process" where
  "get_settings_times 0 p = ([], p)"
| "get_settings_times (Suc n) p =
     (case get_settings p of (obj, p') \<Rightarrow>
        (case get_settings_times n p' of (objs, p'') \<Rightarrow> (obj # objs, p'')))"

section \<open>\<open>api/health.py\<close>, \<open>api/hello.py\<close> and the root handler of \<open>main.py\<close>\<close>

record HelloResponse =
  message :: string

record HealthResponse =
  status :: string
  message :: string

definition get_health :: HealthResponse where
  "get_health = \<lparr> status = ''healthy'', message = ''OK'' \<rparr>"

definition get_hello :: HelloResponse where
  "get_hello = \<lparr> HelloResponse.message = ''Hello, World!'' \<rparr>"

definition get_hello_name :: "string \<Rightarrow> HelloResponse" where
  "get_hello_name name = \<lparr> HelloResponse.message = ''Hello, '' @ name @ ''!'' \<rparr>"

text \<open>The rocket U+1F680 in UTF-8.\<close>

definition rocket :: string where
  "rocket = [CHR 0xF0, CHR 0x9F, CHR 0x9A, CHR 0x80]"

text \<open>\<open>root\<close> returns a dict, kept as the list of its items in order.\<close>

definition root :: "Settings \<Rightarrow> (string \<times> string) list" where
  "root settings =
     [(''message'', ''OK '' @ rocket),
      (''version'', API_VERSION settings),
      (''environment'', ENVIRONMENT settings)]"

section \<open>\<open>main.py\<close>: the application and its routes\<close>

text \<open>
  The web framework (FastAPI on Starlette) is not part of the repository. What the source
  asks of it is modelled here as the framework does it: a route holds a path pattern, the
  methods it accepts and its endpoint; the router answers with the first route that
  matches path and method, with 405 when only the path of a route matches, with a redirect
  when the path matches after its final slash is added or removed, and with 404 otherwise.
  Requests that the CORS middleware answers itself (preflights) never reach the router and
  are not modelled.

  A path pattern is literal text, or literal text followed by one final parameter
  \<open>{name}\<close>, which are the two shapes the source registers. The prefix is taken as
  literal text: a prefix holding a \<open>{...}\<close> group would be read by the framework as
  parameters of its own, and the theorems below exclude it.
\<close>

datatype pattern = Literal string | Literal_param string string

datatype endpoint =
  OPENAPI | SWAGGER_UI_HTML | SWAGGER_UI_REDIRECT | REDOC_HTML
  | GET_HEALTH | GET_HELLO | GET_HELLO_NAME | ROOT

record route =
  path :: pattern
  methods :: "string list"
  endpoint :: endpoint

text \<open>
  The pattern is compiled to the regular expression \<open>^literal$\<close> or
  \<open>^literal(?P<name>[^/]+)$\<close>. Python's \<open>$\<close> also matches before a final newline, so
  a literal pattern accepts its text followed by one newline; the parameter takes all the
  rest of the path, which must be non-empty and free of slashes. The result is the
  parameters of the path.
\<close>

fun strip_prefix :: "string \<Rightarrow> string \<Rightarrow> string option" where
  "strip_prefix [] s = Some s"
| "strip_prefix (c # cs) [] = None"
| "strip_prefix (c # cs) (d # ds) = (if c = d then strip_prefix cs ds else None)"

fun match_path :: "pattern \<Rightarrow> string \<Rightarrow> (string \<times> string) list option" where
  "match_path (Literal l) p = (if p = l \<or> p = l @ [CHR 0x0A] then Some [] else None)"
| "match_path (Literal_param l name) p =
     (case strip_prefix l p of
        None \<Rightarrow> None
      | Some v \<Rightarrow> if v \<noteq> [] \<and> CHR ''/'' \<notin> set v then Some [(name, v)] else None)"

datatype match = NONE | PARTIAL | FULL "(string \<times> string) list"

definition matches :: "route \<Rightarrow> string \<Rightarrow> string \<Rightarrow> match" where
  "matches r method p =
     (case match_path (path r) p of
        None \<Rightarrow> NONE
      | Some params \<Rightarrow> if method \<in> set (methods r) then FULL params else PARTIAL)"

text \<open>
  Registration. \<open>add_route\<close> (used by the framework for the documentation pages) accepts
  GET and HEAD and requires a path that starts with a slash; \<open>@router.get\<close> and
  \<open>@app.get\<close> accept GET only; \<open>include_router\<close> requires a non-empty prefix to start
  with a slash and not to end with one, and registers each route of the router under
  the prefix.
\<close>

definition add_route :: "string \<Rightarrow> endpoint \<Rightarrow> route list \<Rightarrow> error + route list" where
  "add_route p e rs =
     (if take 1 p = ''/''
      then Inr (rs @ [\<lparr> path = Literal p, methods = [''GET'', ''HEAD''], endpoint = e \<rparr>])
      else Inl AssertionError)"

definition get :: "pattern \<Rightarrow> endpoint \<Rightarrow> route" where
  "get pat e = \<lparr> path = pat, methods = [''GET''], endpoint = e \<rparr>"

fun prefixed :: "string \<Rightarrow> pattern \<Rightarrow> pattern" where
  "prefixed pre (Literal l) = Literal (pre @ l)"
| "prefixed pre (Literal_param l name) = Literal_param (pre @ l) name"

definition include_router :: "route list \<Rightarrow> string \<Rightarrow> route list \<Rightarrow> error + route list" where
  "include_router router pre rs =
     (if pre \<noteq> [] \<and> (take 1 pre \<noteq> ''/'' \<or> last pre = CHR ''/'')
      then Inl AssertionError
      else Inr (rs @ map (\<lambda>r. r\<lparr> path := prefixed pre (path r) \<rparr>) router))"

text \<open>The routers of \<open>api/health.py\<close> and \<open>api/hello.py\<close>.\<close>

definition health_router :: "route list" where
  "health_router = [get (Literal ''/health'') GET_HEALTH]"

definition hello_router :: "route list" where
  "hello_router =
     [get (Literal ''/hello'') GET_HELLO,
      get (Literal_param ''/hello/'' ''name'') GET_HELLO_NAME]"

text \<open>
  \<open>FastAPI(docs_url=..., redoc_url=...)\<close> registers the schema at \<open>/openapi.json\<close>, the
  documentation page at \<open>docs_url\<close>, its OAuth2 redirect page at
  \<open>/docs/oauth2-redirect\<close> and the second documentation page at \<open>redoc_url\<close>, in this
  order (the schema and the redirect page keep the framework's default paths, which the
  source does not set).
\<close>

definition bind :: "error + 'a \<Rightarrow> ('a \<Rightarrow> error + 'b) \<Rightarrow> error + 'b" where
  "bind m f = (case m of Inl e \<Rightarrow> Inl e | Inr x \<Rightarrow> f x)"

definition FastAPI :: "string \<Rightarrow> string \<Rightarrow> error + route list" where
  "FastAPI docs_url redoc_url =
     bind (add_route ''/openapi.json'' OPENAPI []) (\<lambda>rs.
     bind (add_route docs_url SWAGGER_UI_HTML rs) (\<lambda>rs.
     bind (add_route ''/docs/oauth2-redirect'' SWAGGER_UI_REDIRECT rs) (\<lambda>rs.
     add_route redoc_url REDOC_HTML rs)))"

text \<open>The module body of \<open>main.py\<close> from \<open>app = FastAPI(...)\<close> to \<open>@app.get("/")\<close>.\<close>

definition app :: "Settings \<Rightarrow> error + route list" where
  "app settings =
     bind (FastAPI (API_PREFIX settings @ ''/docs'') (API_PREFIX settings @ ''/redoc'')) (\<lambda>rs.
     bind (include_router health_router (API_PREFIX settings) rs) (\<lambda>rs.
     bind (include_router hello_router (API_PREFIX settings) rs) (\<lambda>rs.
     Inr (rs @ [get (Literal ''/'') ROOT]))))"

section \<open>Requests and responses\<close>

datatype content =
  Health_json HealthResponse
  | Hello_json HelloResponse
  | Dict_json "(string \<times> string) list"
  | Openapi_json
  | Swagger_ui_page
  | Oauth2_redirect_page
  | Redoc_page
  | Validation_error
  | Method_not_allowed
  | Redirect_to string
  | Not_found

record response =
  status_code :: nat
  body :: content

record request =
  http_method :: string
  target :: string

text \<open>
  Running an endpoint: a handler that returns gives status 200 with what it returned. The
  parameter \<open>name\<close> of \<open>get_hello_name\<close> is bound from the parameters of the path.
\<close>

definition call_endpoint :: "Settings \<Rightarrow> endpoint \<Rightarrow> (string \<times> string) list \<Rightarrow> response" where
  "call_endpoint settings e params =
     (case e of
        OPENAPI \<Rightarrow> \<lparr> status_code = 200, body = Openapi_json \<rparr>
      | SWAGGER_UI_HTML \<Rightarrow> \<lparr> status_code = 200, body = Swagger_ui_page \<rparr>
      | SWAGGER_UI_REDIRECT \<Rightarrow> \<lparr> status_code = 200, body = Oauth2_redirect_page \<rparr>
      | REDOC_HTML \<Rightarrow> \<lparr> status_code = 200, body = Redoc_page \<rparr>
      | GET_HEALTH \<Rightarrow> \<lparr> status_code = 200, body = Health_json get_health \<rparr>
      | GET_HELLO \<Rightarrow> \<lparr> status_code = 200, body = Hello_json get_hello \<rparr>
      | GET_HELLO_NAME \<Rightarrow>
          (case map_of params ''name'' of
             Some name \<Rightarrow> \<lparr> status_code = 200, body = Hello_json (get_hello_name name) \<rparr>
           | None \<Rightarrow> \<lparr> status_code = 422, body = Validation_error \<rparr>)
      | ROOT \<Rightarrow> \<lparr> status_code = 200, body = Dict_json (root settings) \<rparr>)"

text \<open>The router: the first full match, else the first partial match, else the rest.\<close>

fun first_full :: "route list \<Rightarrow> string \<Rightarrow> string \<Rightarrow> (route \<times> (string \<times> string) list) option" where
  "first_full [] m p = None"
| "first_full (r # rs) m p =
     (case matches r m p of FULL params \<Rightarrow> Some (r, params) | _ \<Rightarrow> first_full rs m p)"

fun first_partial :: "route list \<Rightarrow> string \<Rightarrow> string \<Rightarrow> route option" where
  "first_partial [] m p = None"
| "first_partial (r # rs) m p =
     (case matches r m p of PARTIAL \<Rightarrow> Some r | _ \<Rightarrow> first_partial rs m p)"

fun any_match :: "route list \<Rightarrow> string \<Rightarrow> string \<Rightarrow> bool" where
  "any_match [] m p = False"
| "any_match (r # rs) m p = (matches r m p \<noteq> NONE \<or> any_match rs m p)"

definition rstrip_slash :: "string \<Rightarrow> string" where
  "rstrip_slash p = rev (dropWhile (\<lambda>c. c = CHR ''/'') (rev p))"

definition toggle_slash :: "string \<Rightarrow> string" where
  "toggle_slash p = (if p \<noteq> [] \<and> last p = CHR ''/'' then rstrip_slash p else p @ ''/'')"

definition dispatch :: "Settings \<Rightarrow> route list \<Rightarrow> request \<Rightarrow> response" where
  "dispatch settings routes req =
     (case first_full routes (http_method req) (target req) of
        Some (r, params) \<Rightarrow> call_endpoint settings (endpoint r) params
      | None \<Rightarrow>
          (case first_partial routes (http_method req) (target req) of
             Some r \<Rightarrow> \<lparr> status_code = 405, body = Method_not_allowed \<rparr>
           | None \<Rightarrow>
               if target req \<noteq> ''/'' \<and> any_match routes (http_method req) (toggle_slash (target req))
               then \<lparr> status_code = 307, body = Redirect_to (toggle_slash (target req)) \<rparr>
               else \<lparr> status_code = 404, body = Not_found \<rparr>))"

text \<open>
  The running server: the process state of \<open>config.py\<close>, the module variable
  \<open>settings\<close> of \<open>main.py\<close> and the routes of \<open>app\<close>. Start-up is the module body of
  \<open>main.py\<close>: the settings are loaded, the debugger is attached when \<open>DEBUG\<close> is set, and
  the application is built. The debugger is a third-party module; what importing it and
  calling \<open>debugpy.listen\<close> does is taken as the parameter \<open>debugpy_listen\<close>, an error
  or a normal return.
\<close>

record server =
  proc :: process
  settings :: Settings_object
  routes :: "route list"

definition startup :: "error + unit \<Rightarrow> environ \<Rightarrow> error + server" where
  "startup debugpy_listen env =
     bind (import_config env) (\<lambda>p.
       case get_settings p of (obj, p') \<Rightarrow>
         bind (if DEBUG (attrs obj) then debugpy_listen else Inr ()) (\<lambda>_.
         bind (app (attrs obj)) (\<lambda>rs.
           Inr \<lparr> proc = p', settings = obj, routes = rs \<rparr>)))"

text \<open>
  An endpoint runs in the process, where it can read and assign the module variables, so a
  call maps the server state to the response and the state it leaves. The handlers of the
  source assign nothing, and \<open>root\<close> reads the module variable \<open>settings\<close>.
\<close>

definition run_endpoint :: "endpoint \<Rightarrow> (string \<times> string) list \<Rightarrow> server \<Rightarrow> response \<times> server" where
  "run_endpoint e params srv =
     (case e of
        OPENAPI \<Rightarrow> (\<lparr> status_code = 200, body = Openapi_json \<rparr>, srv)
      | SWAGGER_UI_HTML \<Rightarrow> (\<lparr> status_code = 200, body = Swagger_ui_page \<rparr>, srv)
      | SWAGGER_UI_REDIRECT \<Rightarrow> (\<lparr> status_code = 200, body = Oauth2_redirect_page \<rparr>, srv)
      | REDOC_HTML \<Rightarrow> (\<lparr> status_code = 200, body = Redoc_page \<rparr>, srv)
      | GET_HEALTH \<Rightarrow> (\<lparr> status_code = 200, body = Health_json get_health \<rparr>, srv)
      | GET_HELLO \<Rightarrow> (\<lparr> status_code = 200, body = Hello_json get_hello \<rparr>, srv)
      | GET_HELLO_NAME \<Rightarrow>
          (case map_of params ''name'' of
             Some name \<Rightarrow> (\<lparr> status_code = 200, body = Hello_json (get_hello_name name) \<rparr>, srv)
           | None \<Rightarrow> (\<lparr> status_code = 422, body = Validation_error \<rparr>, srv))
      | ROOT \<Rightarrow>
          (\<lparr> status_code = 200, body = Dict_json (root (attrs (settings srv))) \<rparr>, srv))"

text \<open>
  Serving a request: the router picks the route as in \<open>dispatch\<close> and runs its endpoint
  on the server state; the answers of the router itself leave the state alone.
\<close>

definition serve :: "server \<Rightarrow> request \<Rightarrow> response \<times> server" where
  "serve srv req =
     (case first_full (routes srv) (http_method req) (target req) of
        Some (r, params) \<Rightarrow> run_endpoint (endpoint r) params srv
      | None \<Rightarrow>
          (case first_partial (routes srv) (http_method req) (target req) of
             Some r \<Rightarrow> (\<lparr> status_code = 405, body = Method_not_allowed \<rparr>, srv)
           | None \<Rightarrow>
               if target req \<noteq> ''/''
                  \<and> any_match (routes srv) (http_method req) (toggle_slash (target req))
               then (\<lparr> status_code = 307, body = Redirect_to (toggle_slash (target req)) \<rparr>, srv)
               else (\<lparr> status_code = 404, body = Not_found \<rparr>, srv)))"

fun serve_all :: "server \<Rightarrow> request list \<Rightarrow> response list \<times> server" where
  "serve_all srv [] = ([], srv)"
| "serve_all srv (req # reqs) =
     (case serve srv req of (resp, srv') \<Rightarrow>
        (case serve_all srv' reqs of (resps, srv'') \<Rightarrow> (resp # resps, srv'')))"

text \<open>The settings that the defaults of \<open>config.py\<close> give when no variable is set.\<close>

definition default_settings :: Settings where
  "default_settings =
     \<lparr> ENVIRONMENT = ''development'', DEBUG = False, LOG_LEVEL = ''INFO'', API_PREFIX = ''/api'',
       API_VERSION = ''1.0.0'', CORS_ORIGINS = [''*''], HOST = ''0.0.0.0'', PORT = 8080 \<rparr>"

text \<open>
  The spec's words for the origin list, the comma-split of the input in order: a non-empty
  list of pieces that hold no comma and that, joined by commas in their order, give the
  input back. This is the reading \<open>split\<close> is compared with.
\<close>

definition comma_split_spec :: "string \<Rightarrow> string list \<Rightarrow> bool" where
  "comma_split_spec s ps =
     (ps \<noteq> [] \<and> list_all (\<lambda>p. CHR '','' \<notin> set p) ps \<and> join (CHR '','') ps = s)"

section \<open>Facts about the text functions\<close>

lemma of_char_lower_char:
  "(of_char (lower_char c) :: nat) =
     (if 65 \<le> (of_char c :: nat) \<and> (of_char c :: nat) \<le> 90 then of_char c + 32 else of_char c)"
  by (simp add: lower_char_def)

lemma lower_char_eq_iff:
  "lower_char c = d \<longleftrightarrow>
     (if 65 \<le> (of_char c :: nat) \<and> (of_char c :: nat) \<le> 90
      then (of_char c :: nat) + 32 = of_char d else c = d)"
proof -
  have "lower_char c = d \<longleftrightarrow> (of_char (lower_char c) :: nat) = of_char d"
    by simp
  then show ?thesis
    by (simp add: of_char_lower_char)
qed

lemma of_char_is: "(of_char c :: nat) = of_char d \<longleftrightarrow> c = d"
  by simp

lemma lower_char_t: "lower_char c = CHR ''t'' \<longleftrightarrow> c = CHR ''t'' \<or> c = CHR ''T''"
  using of_char_is [of c "CHR ''T''"] by (auto simp: lower_char_eq_iff)
lemma lower_char_r: "lower_char c = CHR ''r'' \<longleftrightarrow> c = CHR ''r'' \<or> c = CHR ''R''"
  using of_char_is [of c "CHR ''R''"] by (auto simp: lower_char_eq_iff)
lemma lower_char_u: "lower_char c = CHR ''u'' \<longleftrightarrow> c = CHR ''u'' \<or> c = CHR ''U''"
  using of_char_is [of c "CHR ''U''"] by (auto simp: lower_char_eq_iff)
lemma lower_char_e: "lower_char c = CHR ''e'' \<longleftrightarrow> c = CHR ''e'' \<or> c = CHR ''E''"
  using of_char_is [of c "CHR ''E''"] by (auto simp: lower_char_eq_iff)

lemma lower_is_true:
  "lower s = ''true'' \<longleftrightarrow>
     (\<exists>a b c d. s = [a, b, c, d] \<and> (a = CHR ''t'' \<or> a = CHR ''T'') \<and> (b = CHR ''r'' \<or> b = CHR ''R'')
        \<and> (c = CHR ''u'' \<or> c = CHR ''U'') \<and> (d = CHR ''e'' \<or> d = CHR ''E''))"
proof -
  have "lower s = ''true'' \<longleftrightarrow>
      (\<exists>a b c d. s = [a, b, c, d] \<and> lower_char a = CHR ''t'' \<and> lower_char b = CHR ''r''
         \<and> lower_char c = CHR ''u'' \<and> lower_char d = CHR ''e'')"
    unfolding lower_def by (simp add: map_eq_Cons_conv) blast
  then show ?thesis
    by (simp only: lower_char_t lower_char_r lower_char_u lower_char_e)
qed

lemma split_from_nonempty: "split_from sep p s \<noteq> []"
  by (induction s arbitrary: p) auto

lemma split_from_join: "join sep (split_from sep p s) = p @ s"
proof (induction s arbitrary: p)
  case Nil show ?case by simp
next
  case (Cons c cs)
  obtain q qs where q: "split_from sep [] cs = q # qs"
    using split_from_nonempty [of sep "[]" cs] by (cases "split_from sep [] cs") auto
  show ?case using Cons [of "[]"] Cons [of "p @ [c]"] q by auto
qed

lemma split_from_pieces: "sep \<notin> set p \<Longrightarrow> q \<in> set (split_from sep p s) \<Longrightarrow> sep \<notin> set q"
proof (induction s arbitrary: p)
  case Nil then show ?case by simp
next
  case (Cons c cs)
  show ?case
  proof (cases "c = sep")
    case True
    with Cons.prems have "q = p \<or> q \<in> set (split_from sep [] cs)" by simp
    then show ?thesis using Cons.IH [of "[]"] Cons.prems(1) by auto
  next
    case False
    with Cons.prems have "q \<in> set (split_from sep (p @ [c]) cs)" by simp
    moreover have "sep \<notin> set (p @ [c])" using False Cons.prems(1) by auto
    ultimately show ?thesis by (rule Cons.IH [rotated])
  qed
qed

lemma split_from_plain: "sep \<notin> set s \<Longrightarrow> split_from sep p s = [p @ s]"
  by (induction s arbitrary: p) auto

lemma split_from_cut:
  "sep \<notin> set s \<Longrightarrow> split_from sep p (s @ sep # r) = (p @ s) # split_from sep [] r"
  by (induction s arbitrary: p) auto

lemma split_join:
  "ps \<noteq> [] \<Longrightarrow> \<forall>q \<in> set ps. sep \<notin> set q \<Longrightarrow> split_from sep [] (join sep ps) = ps"
proof (induction sep ps rule: join.induct)
  case (1 sep) then show ?case by simp
next
  case (2 sep p) then show ?case by (simp add: split_from_plain)
next
  case (3 sep p q ps)
  then show ?case by (simp add: split_from_cut)
qed

lemma split_from_length: "length (split_from sep p s) = Suc (count_list s sep)"
  by (induction s arbitrary: p) auto

lemma split_from_concat: "concat (split_from sep p s) = p @ filter (\<lambda>c. c \<noteq> sep) s"
  by (induction s arbitrary: p) auto

lemma int_digits_error: "int_digits acc b s = Inl e \<Longrightarrow> e = ValueError"
  by (induction acc b s rule: int_digits.induct) (auto split: if_splits)

lemma py_int_error: "py_int s = Inl e \<Longrightarrow> e = ValueError"
  by (auto simp: py_int_def split: list.splits if_splits sum.splits dest: int_digits_error)

lemma py_int_8080: "py_int ''8080'' = Inr 8080"
  by (simp add: py_int_def strip_def is_space_def is_digit_def digit_value_def)

lemma get_settings_cached: "lru_cache p = Some obj \<Longrightarrow> get_settings p = (obj, p)"
  by (simp add: get_settings_def)

lemma get_settings_caches: "get_settings p = (obj, p') \<Longrightarrow> lru_cache p' = Some obj"
  by (auto simp: get_settings_def Settings_new_def split: option.splits)

lemma get_settings_times_cached:
  "lru_cache p = Some obj \<Longrightarrow> get_settings_times n p = (replicate n obj, p)"
  by (induction n) (simp_all add: get_settings_cached)

lemma comma_split_spec_iff: "comma_split_spec s ps \<longleftrightarrow> ps = split (CHR '','') s"
proof
  assume "comma_split_spec s ps"
  then show "ps = split (CHR '','') s"
    using split_join [of ps "CHR '',''"] by (auto simp: comma_split_spec_def split_def list_all_iff)
next
  assume ps: "ps = split (CHR '','') s"
  have "\<forall>q \<in> set (split_from (CHR '','') [] s). CHR '','' \<notin> set q"
    using split_from_pieces [of "CHR '',''" "[]" _ s] by auto
  then show "comma_split_spec s ps"
    by (simp add: ps comma_split_spec_def split_def list_all_iff split_from_nonempty split_from_join)
qed

lemma Settings_class_fields:
  assumes "Settings_class env = Inr s"
  shows "ENVIRONMENT s = getenv env ''ENVIRONMENT'' ''development''"
    and "DEBUG s = (lower (getenv env ''DEBUG'' ''false'') = ''true'')"
    and "LOG_LEVEL s = getenv env ''LOG_LEVEL'' ''INFO''"
    and "API_PREFIX s = getenv env ''API_PREFIX'' ''/api''"
    and "API_VERSION s = getenv env ''API_VERSION'' ''1.0.0''"
    and "CORS_ORIGINS s = split (CHR '','') (getenv env ''CORS_ORIGINS'' ''*'')"
    and "HOST s = getenv env ''HOST'' ''0.0.0.0''"
    and "py_int (getenv env ''PORT'' ''8080'') = Inr (PORT s)"
  using assms by (auto simp: Settings_class_def split: sum.splits)

lemma Settings_class_ok:
  "py_int (getenv env ''PORT'' ''8080'') = Inr n \<Longrightarrow> \<exists>s. Settings_class env = Inr s \<and> PORT s = n"
  by (simp add: Settings_class_def)

lemma Settings_class_fails:
  "py_int (getenv env ''PORT'' ''8080'') = Inl e \<Longrightarrow> Settings_class env = Inl ValueError"
  by (auto simp: Settings_class_def dest: py_int_error)

lemma lower_examples:
  "lower ''TRUE'' = ''true''" "lower ''True'' = ''true''" "lower ''true'' = ''true''"
  "lower ''1'' \<noteq> ''true''" "lower ''yes'' \<noteq> ''true''" "lower ''false'' \<noteq> ''true''"
  by (simp_all add: lower_is_true)

lemma py_int_examples:
  "py_int ''abc'' = Inl ValueError" "py_int [] = Inl ValueError" "py_int ''80.5'' = Inl ValueError"
  "py_int ''9999'' = Inr 9999" "py_int '' 8_080 '' = Inr 8080" "py_int ''-1'' = Inr (- 1)"
  by (simp_all add: py_int_def strip_def is_space_def is_digit_def digit_value_def)

lemma startup_import_fails: "import_config env = Inl e \<Longrightarrow> startup dbg env = Inl e"
  by (simp add: startup_def bind_def)

section \<open>Facts about the routes and the router\<close>

text \<open>The route table of a built application, and when it is built.\<close>

lemma strip_prefix_iff: "strip_prefix l p = Some v \<longleftrightarrow> p = l @ v"
  by (induction l p rule: strip_prefix.induct) auto

lemma strip_prefix_append: "strip_prefix l (l @ v) = Some v"
  by (simp add: strip_prefix_iff)

lemma append_neq_last:
  "ys \<noteq> [] \<Longrightarrow> zs \<noteq> [] \<Longrightarrow> last ys \<noteq> last zs \<Longrightarrow> xs @ ys \<noteq> zs"
  by (metis last_appendR)

lemma prefix_ok_app:
  assumes "app cfg = Inr rs"
  shows "API_PREFIX cfg = [] \<or> (take 1 (API_PREFIX cfg) = ''/'' \<and> last (API_PREFIX cfg) \<noteq> CHR ''/'')"
  using assms
  by (auto simp: app_def FastAPI_def bind_def add_route_def include_router_def split: if_splits sum.splits)

lemma app_routes:
  assumes "app cfg = Inr rs"
  shows "rs =
    [\<lparr> path = Literal ''/openapi.json'', methods = [''GET'', ''HEAD''], endpoint = OPENAPI \<rparr>,
     \<lparr> path = Literal (API_PREFIX cfg @ ''/docs''), methods = [''GET'', ''HEAD''], endpoint = SWAGGER_UI_HTML \<rparr>,
     \<lparr> path = Literal ''/docs/oauth2-redirect'', methods = [''GET'', ''HEAD''], endpoint = SWAGGER_UI_REDIRECT \<rparr>,
     \<lparr> path = Literal (API_PREFIX cfg @ ''/redoc''), methods = [''GET'', ''HEAD''], endpoint = REDOC_HTML \<rparr>,
     \<lparr> path = Literal (API_PREFIX cfg @ ''/health''), methods = [''GET''], endpoint = GET_HEALTH \<rparr>,
     \<lparr> path = Literal (API_PREFIX cfg @ ''/hello''), methods = [''GET''], endpoint = GET_HELLO \<rparr>,
     \<lparr> path = Literal_param (API_PREFIX cfg @ ''/hello/'') ''name'', methods = [''GET''], endpoint = GET_HELLO_NAME \<rparr>,
     \<lparr> path = Literal ''/'', methods = [''GET''], endpoint = ROOT \<rparr>]"
  using assms
  by (auto simp: app_def FastAPI_def bind_def add_route_def include_router_def
      health_router_def hello_router_def get_def split: if_splits sum.splits)

lemma app_ok:
  assumes "API_PREFIX cfg = [] \<or> (take 1 (API_PREFIX cfg) = ''/'' \<and> last (API_PREFIX cfg) \<noteq> CHR ''/'')"
  shows "\<exists>rs. app cfg = Inr rs"
proof -
  have "take 1 (API_PREFIX cfg @ ''/docs'') = ''/''" "take 1 (API_PREFIX cfg @ ''/redoc'') = ''/''"
    using assms by (cases "API_PREFIX cfg"; auto)+
  then show ?thesis
    using assms
    by (auto simp: app_def FastAPI_def bind_def add_route_def include_router_def)
qed

text \<open>
  The registered paths reach their endpoints: no route registered earlier matches them,
  for every prefix.
\<close>

lemma dispatch_health:
  assumes "app cfg = Inr rs"
  shows "dispatch cfg rs \<lparr> http_method = ''GET'', target = API_PREFIX cfg @ ''/health'' \<rparr>
     = \<lparr> status_code = 200, body = Health_json get_health \<rparr>"
  unfolding app_routes [OF assms]
  by (simp add: dispatch_def matches_def call_endpoint_def append_neq_last)






lemma last_slash_hello:
  "CHR ''/'' \<notin> set name \<Longrightarrow>
     dropWhile (\<lambda>c. c \<noteq> CHR ''/'') (rev (pre @ ''/hello/'' @ name)) = ''/olleh/'' @ rev pre"
  by (simp add: dropWhile_append)

lemma hello_name_not_fixed:
  assumes "CHR ''/'' \<notin> set name"
  shows "pre @ ''/hello/'' @ name \<noteq> ''/openapi.json''"
    and "pre @ ''/hello/'' @ name \<noteq> ''/openapi.json'' @ [CHR 0x0A]"
    and "pre @ ''/hello/'' @ name \<noteq> ''/docs/oauth2-redirect''"
    and "pre @ ''/hello/'' @ name \<noteq> ''/docs/oauth2-redirect'' @ [CHR 0x0A]"
proof -
  let ?cut = "\<lambda>p. dropWhile (\<lambda>c. c \<noteq> CHR ''/'') (rev p)"
  have u: "?cut (pre @ ''/hello/'' @ name) = ''/olleh/'' @ rev pre"
    using assms by (rule last_slash_hello)
  have differ: "''/olleh/'' @ rev pre \<noteq> ?cut q \<Longrightarrow> pre @ ''/hello/'' @ name \<noteq> q" for q
    using u by auto
  show "pre @ ''/hello/'' @ name \<noteq> ''/openapi.json''"
    by (rule differ) simp
  show "pre @ ''/hello/'' @ name \<noteq> ''/openapi.json'' @ [CHR 0x0A]"
    by (rule differ) simp
  show "pre @ ''/hello/'' @ name \<noteq> ''/docs/oauth2-redirect''"
    by (rule differ) simp
  show "pre @ ''/hello/'' @ name \<noteq> ''/docs/oauth2-redirect'' @ [CHR 0x0A]"
    by (rule differ) simp
qed

lemma dispatch_hello_name:
  assumes "app cfg = Inr rs" and "name \<noteq> []" and "CHR ''/'' \<notin> set name"
  shows "dispatch cfg rs \<lparr> http_method = ''GET'', target = API_PREFIX cfg @ ''/hello/'' @ name \<rparr>
     = \<lparr> status_code = 200, body = Hello_json (get_hello_name name) \<rparr>"
proof -
  have s: "strip_prefix (API_PREFIX cfg @ ''/hello/'') (API_PREFIX cfg @ ''/hello/'' @ name) = Some name"
    using strip_prefix_append [of "API_PREFIX cfg @ ''/hello/''" name] by simp
  show ?thesis
    unfolding app_routes [OF assms(1)]
    using hello_name_not_fixed [OF assms(3), of "API_PREFIX cfg"] assms(2,3) s
    by (simp add: dispatch_def matches_def call_endpoint_def)
qed









lemma Settings_class_empty: "Settings_class Map.empty = Inr default_settings"
  by (simp add: Settings_class_def getenv_def py_int_8080 default_settings_def split_def lower_examples)

lemma app_default: "\<exists>rs. app default_settings = Inr rs"
  by (rule app_ok) (simp add: default_settings_def)


text \<open>The server: serving keeps the state, start-up fixes settings and routes.\<close>

lemma run_endpoint_eq:
  "run_endpoint e params srv = (call_endpoint (attrs (settings srv)) e params, srv)"
  by (simp add: run_endpoint_def call_endpoint_def split: endpoint.splits option.splits)

lemma serve_eq: "serve srv req = (dispatch (attrs (settings srv)) (routes srv) req, srv)"
  by (simp add: serve_def dispatch_def run_endpoint_eq split: option.splits prod.splits)

lemma serve_all_eq: "serve_all srv reqs = (map (\<lambda>r. fst (serve srv r)) reqs, srv)"
  by (induction reqs) (simp_all add: serve_eq)




lemma startup_ok:
  assumes "Settings_class env = Inr cfg" and "app cfg = Inr rs" and "\<not> DEBUG cfg \<or> dbg = Inr ()"
  shows "\<exists>srv. startup dbg env = Inr srv \<and> attrs (settings srv) = cfg \<and> routes srv = rs"
  using assms
  by (auto simp: startup_def bind_def import_config_def get_settings_def Settings_new_def)

lemma default_no_debug: "\<not> DEBUG default_settings \<or> dbg = Inr ()"
  by (simp add: default_settings_def)

section \<open>The claims about the configuration\<close>

text \<open>
  C5. The origin list is the comma-split of the text of \<open>CORS_ORIGINS\<close>, in order: it is
  the one list the spec's reading allows, \<open>https://a.com,https://b.com\<close> gives exactly
  these two origins in this order, and an unset variable gives the single wildcard.
\<close>

theorem cors_origins_comma_split:
  assumes "Settings_class env = Inr s"
  shows "(\<forall>ps. comma_split_spec (getenv env ''CORS_ORIGINS'' ''*'') ps \<longleftrightarrow> ps = CORS_ORIGINS s)
    \<and> (env ''CORS_ORIGINS'' = Some ''https://a.com,https://b.com''
          \<longrightarrow> CORS_ORIGINS s = [''https://a.com'', ''https://b.com''])
    \<and> (env ''CORS_ORIGINS'' = None \<longrightarrow> CORS_ORIGINS s = [''*''])"
  using Settings_class_fields(6) [OF assms]
  by (auto simp: comma_split_spec_iff getenv_def split_def)

theorem cors_origins_comma_split_witness:
  "(\<exists>s. Settings_class [''CORS_ORIGINS'' \<mapsto> ''https://a.com,https://b.com''] = Inr s
        \<and> CORS_ORIGINS s = [''https://a.com'', ''https://b.com''])
   \<and> (\<exists>s. Settings_class Map.empty = Inr s \<and> CORS_ORIGINS s = [''*''])"
proof -
  obtain s1 where s1: "Settings_class [''CORS_ORIGINS'' \<mapsto> ''https://a.com,https://b.com''] = Inr s1"
    using Settings_class_ok [of "[''CORS_ORIGINS'' \<mapsto> ''https://a.com,https://b.com'']" 8080]
    by (auto simp: getenv_def py_int_8080)
  obtain s0 where s0: "Settings_class Map.empty = Inr s0"
    using Settings_class_ok [of Map.empty 8080] by (auto simp: getenv_def py_int_8080)
  have "CORS_ORIGINS s1 = [''https://a.com'', ''https://b.com'']"
    using cors_origins_comma_split [OF s1] by simp
  moreover have "CORS_ORIGINS s0 = [''*'']"
    using cors_origins_comma_split [OF s0] by simp
  ultimately show ?thesis using s1 s0 by blast
qed

text \<open>
  C10. The split neither trims nor drops empty items: the empty text gives the list of one
  empty origin (not the wildcard, not the empty list), \<open>a, b\<close> keeps its blank, there is
  one origin more than there are commas, and the origins together are the input without
  its commas.
\<close>

theorem cors_origins_no_trim_no_filter:
  assumes "Settings_class env = Inr s"
  shows "(env ''CORS_ORIGINS'' = Some [] \<longrightarrow>
            CORS_ORIGINS s = [[]] \<and> CORS_ORIGINS s \<noteq> [''*''] \<and> CORS_ORIGINS s \<noteq> [])
    \<and> (env ''CORS_ORIGINS'' = Some ''a, b'' \<longrightarrow> CORS_ORIGINS s = [''a'', '' b''])
    \<and> length (CORS_ORIGINS s) = Suc (count_list (getenv env ''CORS_ORIGINS'' ''*'') (CHR '',''))
    \<and> concat (CORS_ORIGINS s) = filter (\<lambda>c. c \<noteq> CHR '','') (getenv env ''CORS_ORIGINS'' ''*'')"
  using Settings_class_fields(6) [OF assms]
  by (auto simp: getenv_def split_def split_from_length split_from_concat)

theorem cors_origins_no_trim_no_filter_witness:
  "(\<exists>s. Settings_class [''CORS_ORIGINS'' \<mapsto> []] = Inr s \<and> CORS_ORIGINS s = [[]])
   \<and> (\<exists>s. Settings_class [''CORS_ORIGINS'' \<mapsto> ''a, b''] = Inr s \<and> CORS_ORIGINS s = [''a'', '' b''])"
proof -
  obtain s1 where s1: "Settings_class [''CORS_ORIGINS'' \<mapsto> []] = Inr s1"
    using Settings_class_ok [of "[''CORS_ORIGINS'' \<mapsto> []]" 8080]
    by (auto simp: getenv_def py_int_8080)
  obtain s2 where s2: "Settings_class [''CORS_ORIGINS'' \<mapsto> ''a, b''] = Inr s2"
    using Settings_class_ok [of "[''CORS_ORIGINS'' \<mapsto> ''a, b'']" 8080]
    by (auto simp: getenv_def py_int_8080)
  have "CORS_ORIGINS s1 = [[]]"
    using cors_origins_no_trim_no_filter [OF s1] by simp
  moreover have "CORS_ORIGINS s2 = [''a'', '' b'']"
    using cors_origins_no_trim_no_filter [OF s2] by simp
  ultimately show ?thesis using s1 s2 by blast
qed

text \<open>
  C6. The debug flag is true exactly when the lowered text of \<open>DEBUG\<close> is \<open>true\<close>, that
  is for the sixteen spellings of \<open>true\<close> in upper and lower case; \<open>1\<close> and \<open>yes\<close>
  give false and so does an unset variable. The other variables are taken as they are,
  apart from the parse of \<open>PORT\<close> and the split of \<open>CORS_ORIGINS\<close>.
\<close>

theorem debug_flag_coercion:
  assumes "Settings_class env = Inr s"
  shows "DEBUG s = (case env ''DEBUG'' of None \<Rightarrow> False | Some v \<Rightarrow> lower v = ''true'')
    \<and> (\<forall>v. lower v = ''true'' \<longleftrightarrow>
          (\<exists>a b c d. v = [a, b, c, d] \<and> (a = CHR ''t'' \<or> a = CHR ''T'') \<and> (b = CHR ''r'' \<or> b = CHR ''R'')
             \<and> (c = CHR ''u'' \<or> c = CHR ''U'') \<and> (d = CHR ''e'' \<or> d = CHR ''E'')))
    \<and> lower ''TRUE'' = ''true'' \<and> lower ''True'' = ''true''
    \<and> lower ''1'' \<noteq> ''true'' \<and> lower ''yes'' \<noteq> ''true''
    \<and> ENVIRONMENT s = getenv env ''ENVIRONMENT'' ''development''
    \<and> LOG_LEVEL s = getenv env ''LOG_LEVEL'' ''INFO''
    \<and> API_PREFIX s = getenv env ''API_PREFIX'' ''/api''
    \<and> API_VERSION s = getenv env ''API_VERSION'' ''1.0.0''
    \<and> HOST s = getenv env ''HOST'' ''0.0.0.0''
    \<and> CORS_ORIGINS s = split (CHR '','') (getenv env ''CORS_ORIGINS'' ''*'')
    \<and> py_int (getenv env ''PORT'' ''8080'') = Inr (PORT s)"
proof -
  have "DEBUG s = (case env ''DEBUG'' of None \<Rightarrow> False | Some v \<Rightarrow> lower v = ''true'')"
    using Settings_class_fields(2) [OF assms] lower_examples(6)
    by (simp add: getenv_def split: option.splits)
  moreover have "\<forall>v. lower v = ''true'' \<longleftrightarrow>
          (\<exists>a b c d. v = [a, b, c, d] \<and> (a = CHR ''t'' \<or> a = CHR ''T'') \<and> (b = CHR ''r'' \<or> b = CHR ''R'')
             \<and> (c = CHR ''u'' \<or> c = CHR ''U'') \<and> (d = CHR ''e'' \<or> d = CHR ''E''))"
    using lower_is_true by blast
  ultimately show ?thesis
    using Settings_class_fields [OF assms] lower_examples by simp
qed

theorem debug_flag_coercion_witness:
  "(\<exists>s. Settings_class [''DEBUG'' \<mapsto> ''TRUE''] = Inr s \<and> DEBUG s)
   \<and> (\<exists>s. Settings_class [''DEBUG'' \<mapsto> ''yes''] = Inr s \<and> \<not> DEBUG s)
   \<and> (\<exists>s. Settings_class Map.empty = Inr s \<and> \<not> DEBUG s)"
proof -
  obtain s1 where s1: "Settings_class [''DEBUG'' \<mapsto> ''TRUE''] = Inr s1"
    using Settings_class_ok [of "[''DEBUG'' \<mapsto> ''TRUE'']" 8080]
    by (auto simp: getenv_def py_int_8080)
  obtain s2 where s2: "Settings_class [''DEBUG'' \<mapsto> ''yes''] = Inr s2"
    using Settings_class_ok [of "[''DEBUG'' \<mapsto> ''yes'']" 8080]
    by (auto simp: getenv_def py_int_8080)
  obtain s0 where s0: "Settings_class Map.empty = Inr s0"
    using Settings_class_ok [of Map.empty 8080] by (auto simp: getenv_def py_int_8080)
  have "DEBUG s1"
    using debug_flag_coercion [OF s1] by simp
  moreover have "\<not> DEBUG s2"
    using debug_flag_coercion [OF s2] by simp
  moreover have "\<not> DEBUG s0"
    using debug_flag_coercion [OF s0] by simp
  ultimately show ?thesis using s1 s2 s0 by blast
qed

text \<open>
  C4. For a text of \<open>PORT\<close> in the range where \<open>py_int\<close> is \<open>int\<close> (ASCII, at most 640
  characters): a text that does not parse makes the class body, the import of the
  configuration and the start-up fail with \<open>ValueError\<close>, whatever the debugger does, so
  no server is reached; a text that parses gives settings and a settings object with that
  port. An unset \<open>PORT\<close> gives 8080.
\<close>

theorem malformed_port_is_fatal:
  "(env ''PORT'' = Some text \<and> int_modelled text \<and> py_int text = Inl e \<longrightarrow>
      Settings_class env = Inl ValueError \<and> import_config env = Inl ValueError
      \<and> startup dbg env = Inl ValueError)
   \<and> (env ''PORT'' = Some text \<and> int_modelled text \<and> py_int text = Inr n \<longrightarrow>
         (\<exists>s. Settings_class env = Inr s \<and> PORT s = n)
         \<and> (\<exists>p. import_config env = Inr p \<and> PORT (class_attrs p) = n
               \<and> PORT (attrs (fst (get_settings p))) = n))
   \<and> (env ''PORT'' = None \<longrightarrow>
         int_modelled ''8080''
         \<and> (\<exists>s. Settings_class env = Inr s \<and> PORT s = 8080)
         \<and> (\<exists>p. import_config env = Inr p \<and> PORT (attrs (fst (get_settings p))) = 8080))"
proof (intro conjI impI)
  assume a: "env ''PORT'' = Some text \<and> int_modelled text \<and> py_int text = Inl e"
  then have "py_int (getenv env ''PORT'' ''8080'') = Inl e" by (simp add: getenv_def)
  then show c: "Settings_class env = Inl ValueError" by (rule Settings_class_fails)
  then show i: "import_config env = Inl ValueError" by (simp add: import_config_def)
  then show "startup dbg env = Inl ValueError" by (rule startup_import_fails)
next
  assume a: "env ''PORT'' = Some text \<and> int_modelled text \<and> py_int text = Inr n"
  then have "py_int (getenv env ''PORT'' ''8080'') = Inr n" by (simp add: getenv_def)
  then obtain s where s: "Settings_class env = Inr s" "PORT s = n"
    using Settings_class_ok by blast
  then show "\<exists>s. Settings_class env = Inr s \<and> PORT s = n" by blast
  show "\<exists>p. import_config env = Inr p \<and> PORT (class_attrs p) = n
               \<and> PORT (attrs (fst (get_settings p))) = n"
    using s by (simp add: import_config_def get_settings_def Settings_new_def)
next
  assume "env ''PORT'' = None"
  then have "py_int (getenv env ''PORT'' ''8080'') = Inr 8080"
    by (simp add: getenv_def py_int_8080)
  then obtain s where s: "Settings_class env = Inr s" "PORT s = 8080"
    using Settings_class_ok by blast
  then show "\<exists>s. Settings_class env = Inr s \<and> PORT s = 8080" by blast
  show "\<exists>p. import_config env = Inr p \<and> PORT (attrs (fst (get_settings p))) = 8080"
    using s by (simp add: import_config_def get_settings_def Settings_new_def)
  show "int_modelled ''8080''" by (simp add: int_modelled_def)
qed

theorem malformed_port_is_fatal_witness:
  "int_modelled ''abc'' \<and> py_int ''abc'' = Inl ValueError
   \<and> startup (Inr ()) [''PORT'' \<mapsto> ''abc''] = Inl ValueError
   \<and> int_modelled ''9999'' \<and> py_int ''9999'' = Inr 9999
   \<and> (\<exists>s. Settings_class [''PORT'' \<mapsto> ''9999''] = Inr s \<and> PORT s = 9999)
   \<and> (\<exists>s. Settings_class Map.empty = Inr s \<and> PORT s = 8080)"
proof -
  have bad: "[''PORT'' \<mapsto> ''abc''] ''PORT'' = Some ''abc'' \<and> int_modelled ''abc''
      \<and> py_int ''abc'' = Inl ValueError"
    by (simp add: int_modelled_def py_int_examples)
  have ok: "[''PORT'' \<mapsto> ''9999''] ''PORT'' = Some ''9999'' \<and> int_modelled ''9999''
      \<and> py_int ''9999'' = Inr 9999"
    by (simp add: int_modelled_def py_int_examples)
  have none: "(Map.empty :: environ) ''PORT'' = None" by simp
  show ?thesis
    using malformed_port_is_fatal [of "[''PORT'' \<mapsto> ''abc'']" "''abc''" ValueError "Inr ()" 0] bad
      malformed_port_is_fatal [of "[''PORT'' \<mapsto> ''9999'']" "''9999''" ValueError "Inr ()" 9999] ok
      malformed_port_is_fatal [of Map.empty "''x''" ValueError "Inr ()" 0] none
    by blast
qed

text \<open>
  C3. \<open>get_settings\<close> is memoized: a second call returns the same object and leaves the
  state as the first call left it, any number of calls in a row return the object of the
  first, the first call on an empty cache makes the object and stores it, and a call on a
  filled cache returns what is stored.
\<close>

theorem get_settings_memoized:
  "get_settings (snd (get_settings p)) = get_settings p
   \<and> fst (get_settings_times (Suc n) p) = replicate (Suc n) (fst (get_settings p))
   \<and> snd (get_settings_times (Suc n) p) = snd (get_settings p)
   \<and> (lru_cache p = None \<longrightarrow>
         fst (get_settings p) = \<lparr> ident = allocated p, attrs = class_attrs p \<rparr>
         \<and> lru_cache (snd (get_settings p)) = Some (fst (get_settings p))
         \<and> allocated (snd (get_settings p)) = allocated p + 1)
   \<and> (lru_cache p \<noteq> None \<longrightarrow>
         lru_cache p = Some (fst (get_settings p)) \<and> snd (get_settings p) = p)"
proof -
  obtain obj p' where g: "get_settings p = (obj, p')" by (cases "get_settings p")
  have c: "lru_cache p' = Some obj" using g by (rule get_settings_caches)
  have "get_settings p' = (obj, p')" using c by (rule get_settings_cached)
  moreover have "get_settings_times n p' = (replicate n obj, p')"
    using c by (rule get_settings_times_cached)
  moreover have "lru_cache p = None \<longrightarrow>
         obj = \<lparr> ident = allocated p, attrs = class_attrs p \<rparr> \<and> allocated p' = allocated p + 1"
    using g by (auto simp: get_settings_def Settings_new_def)
  moreover have "lru_cache p \<noteq> None \<longrightarrow> lru_cache p = Some obj \<and> p' = p"
    using g by (auto simp: get_settings_def)
  ultimately show ?thesis using g c by simp
qed

theorem get_settings_memoized_witness:
  "\<exists>p. import_config Map.empty = Inr p \<and> lru_cache p = None
      \<and> fst (get_settings_times 3 p) = replicate 3 (fst (get_settings p))
      \<and> ident (fst (get_settings p)) = 0
      \<and> lru_cache (snd (get_settings p)) \<noteq> None
      \<and> get_settings (snd (get_settings p)) = get_settings p
      \<and> snd (get_settings (snd (get_settings p))) = snd (get_settings p)"
proof -
  obtain s where s: "Settings_class Map.empty = Inr s"
    using Settings_class_ok [of Map.empty 8080] by (auto simp: getenv_def py_int_8080)
  define p where "p = \<lparr> class_attrs = s, allocated = 0, lru_cache = None \<rparr>"
  have i: "import_config Map.empty = Inr p" by (simp add: import_config_def s p_def)
  have n: "lru_cache p = None" by (simp add: p_def)
  have a: "allocated p = 0" by (simp add: p_def)
  have first: "fst (get_settings_times 3 p) = replicate 3 (fst (get_settings p))"
      "ident (fst (get_settings p)) = 0" "lru_cache (snd (get_settings p)) \<noteq> None"
      "get_settings (snd (get_settings p)) = get_settings p"
    using get_settings_memoized [of p 2] n a by (simp_all add: numeral_3_eq_3)
  have later: "snd (get_settings (snd (get_settings p))) = snd (get_settings p)"
    using get_settings_memoized [of "snd (get_settings p)" 0] first(3) by blast
  show ?thesis
    using i n first later by (intro exI [of _ p]) simp
qed

section \<open>The claims about the handlers and the router\<close>

text \<open>
  C1. For every non-empty path segment \<open>name\<close> (text without a slash),
  \<open>get_hello_name\<close> returns the message \<open>Hello, \<close> followed by the segment and \<open>!\<close>,
  eight characters longer than the segment, and the request
  \<open>GET <prefix>/hello/<name>\<close> is answered with status 200 and this message. The segment
  is the one of the decoded request path; nothing is escaped, cut or replaced.
\<close>

theorem greeting_keeps_name:
  assumes "app cfg = Inr rs" and "CHR ''{'' \<notin> set (API_PREFIX cfg)"
    and "name \<noteq> []" and "CHR ''/'' \<notin> set name"
  shows "get_hello_name name = \<lparr> HelloResponse.message = ''Hello, '' @ name @ ''!'' \<rparr>
    \<and> length (HelloResponse.message (get_hello_name name)) = length name + 8
    \<and> dispatch cfg rs \<lparr> http_method = ''GET'', target = API_PREFIX cfg @ ''/hello/'' @ name \<rparr>
        = \<lparr> status_code = 200,
            body = Hello_json \<lparr> HelloResponse.message = ''Hello, '' @ name @ ''!'' \<rparr> \<rparr>"
  using dispatch_hello_name [OF assms(1,3,4)] by (simp add: get_hello_name_def)

theorem greeting_keeps_name_witness:
  "\<exists>rs. app default_settings = Inr rs
     \<and> dispatch default_settings rs \<lparr> http_method = ''GET'', target = ''/api/hello/<b>Alice'' \<rparr>
        = \<lparr> status_code = 200, body = Hello_json \<lparr> HelloResponse.message = ''Hello, <b>Alice!'' \<rparr> \<rparr>"
proof -
  obtain rs where rs: "app default_settings = Inr rs" using app_default by blast
  have p: "CHR ''{'' \<notin> set (API_PREFIX default_settings)" by (simp add: default_settings_def)
  have n: "''<b>Alice'' \<noteq> []" "CHR ''/'' \<notin> set ''<b>Alice''" by simp_all
  show ?thesis
    using greeting_keeps_name [OF rs p n] rs by (auto simp: default_settings_def)
qed



text \<open>
  C7. \<open>get_health\<close> is the constant \<open>{status: healthy, message: OK}\<close>;
  \<open>GET <prefix>/health\<close> is answered with status 200 and this body under every
  configuration that starts, also after any sequence of earlier requests, and serving it
  leaves the server state as it was.
\<close>

theorem health_is_constant:
  assumes "app cfg = Inr rs" and "CHR ''{'' \<notin> set (API_PREFIX cfg)"
    and "attrs (settings srv) = cfg" and "routes srv = rs"
  shows "get_health = \<lparr> status = ''healthy'', message = ''OK'' \<rparr>
    \<and> dispatch cfg rs \<lparr> http_method = ''GET'', target = API_PREFIX cfg @ ''/health'' \<rparr>
        = \<lparr> status_code = 200, body = Health_json \<lparr> status = ''healthy'', message = ''OK'' \<rparr> \<rparr>
    \<and> fst (serve (snd (serve_all srv reqs))
             \<lparr> http_method = ''GET'', target = API_PREFIX cfg @ ''/health'' \<rparr>)
        = \<lparr> status_code = 200, body = Health_json \<lparr> status = ''healthy'', message = ''OK'' \<rparr> \<rparr>
    \<and> snd (serve srv \<lparr> http_method = ''GET'', target = API_PREFIX cfg @ ''/health'' \<rparr>) = srv"
  using dispatch_health [OF assms(1)] assms(3,4)
  by (simp add: get_health_def serve_all_eq serve_eq)

theorem health_is_constant_witness:
  "\<exists>srv. startup (Inr ()) Map.empty = Inr srv
     \<and> fst (serve (snd (serve_all srv
            [\<lparr> http_method = ''GET'', target = ''/api/hello/Bob'' \<rparr>,
             \<lparr> http_method = ''GET'', target = ''/api/health'' \<rparr>,
             \<lparr> http_method = ''POST'', target = ''/nowhere'' \<rparr>]))
          \<lparr> http_method = ''GET'', target = ''/api/health'' \<rparr>)
        = \<lparr> status_code = 200, body = Health_json \<lparr> status = ''healthy'', message = ''OK'' \<rparr> \<rparr>"
proof -
  obtain rs where rs: "app default_settings = Inr rs" using app_default by blast
  obtain srv where srv: "startup (Inr ()) Map.empty = Inr srv"
      "attrs (settings srv) = default_settings" "routes srv = rs"
    using startup_ok [OF Settings_class_empty rs default_no_debug] by blast
  have p: "CHR ''{'' \<notin> set (API_PREFIX default_settings)" by (simp add: default_settings_def)
  let ?reqs = "[\<lparr> http_method = ''GET'', target = ''/api/hello/Bob'' \<rparr>,
             \<lparr> http_method = ''GET'', target = ''/api/health'' \<rparr>,
             \<lparr> http_method = ''POST'', target = ''/nowhere'' \<rparr>]"
  show ?thesis
    using health_is_constant [OF rs p srv(2,3), of ?reqs] srv(1)
    by (intro exI [of _ srv]) (simp add: default_settings_def del: serve_all.simps)
qed






end
